theory Spec2Isabelle
  imports Complex_Main
begin

section \<open>Python values used by the pipeline\<close>

text \<open>
  Exceptions are values. \<open>GitlabError\<close> stands for \<^verbatim>\<open>gitlab.GitlabError\<close> and its
  subclasses (authorization, not-found, rate-limit), \<open>PyError\<close> for every other
  \<^verbatim>\<open>Exception\<close> (transport failures, \<^verbatim>\<open>IndexError\<close>, \<^verbatim>\<open>AttributeError\<close>).
  The string is what \<^verbatim>\<open>str(e)\<close> renders.
\<close>

datatype exn = GitlabError string | PyError string

fun str_exn :: "exn \<Rightarrow> string" where
  "str_exn (GitlabError m) = m"
| "str_exn (PyError m) = m"

text \<open>Truthiness of an optional string: \<^verbatim>\<open>None\<close> and \<^verbatim>\<open>''\<close> are falsy.\<close>

fun truthy :: "string option \<Rightarrow> bool" where
  "truthy None = False"
| "truthy (Some s) = (s \<noteq> [])"

text \<open>\<^verbatim>\<open>a or b\<close> on optional strings.\<close>

definition py_or :: "string option \<Rightarrow> string option \<Rightarrow> string option" where
  "py_or a b = (if truthy a then a else b)"

text \<open>\<^verbatim>\<open>str(n)\<close> for integers, as the f-strings render them.\<close>

definition digit_char :: "nat \<Rightarrow> char" where
  "digit_char d = char_of (48 + d)"

function str_nat :: "nat \<Rightarrow> string" where
  "str_nat n = (if n < 10 then [digit_char n] else str_nat (n div 10) @ [digit_char (n mod 10)])"
  by pat_completeness auto
termination
  by (relation "measure (\<lambda>n. n)") auto

declare str_nat.simps [simp del]

definition str_int :: "int \<Rightarrow> string" where
  "str_int i = (if i < 0 then CHR ''-'' # str_nat (nat (- i)) else str_nat (nat i))"

text \<open>\<^verbatim>\<open>str.strip()\<close>: the characters \<^verbatim>\<open>str.isspace\<close> accepts in the first 256 code points.\<close>

definition isspace :: "char \<Rightarrow> bool" where
  "isspace c = (of_char c \<in> {9, 10, 11, 12, 13, 28, 29, 30, 31, 32, 133, 160 :: nat})"

definition strip :: "string \<Rightarrow> string" where
  "strip s = rev (dropWhile isspace (rev (dropWhile isspace s)))"

text \<open>\<^verbatim>\<open>str.lower()\<close> on the ASCII letters.\<close>

definition lower_char :: "char \<Rightarrow> char" where
  "lower_char c = (let n = (of_char c :: nat) in if 65 \<le> n \<and> n \<le> 90 then char_of (n + 32) else c)"

definition lower :: "string \<Rightarrow> string" where
  "lower s = map lower_char s"

text \<open>\<^verbatim>\<open>s.startswith(p)\<close>, \<^verbatim>\<open>s.replace(p, '')\<close>, \<^verbatim>\<open>s.isdigit()\<close> and \<^verbatim>\<open>int(s)\<close>.\<close>

definition startswith :: "string \<Rightarrow> string \<Rightarrow> bool" where
  "startswith s p = (take (length p) s = p)"

function remove_all :: "string \<Rightarrow> string \<Rightarrow> string" where
  "remove_all p [] = []"
| "remove_all p (c # cs) =
     (if p \<noteq> [] \<and> startswith (c # cs) p then remove_all p (drop (length p) (c # cs))
      else c # remove_all p cs)"
  by pat_completeness auto
termination
  by (relation "measure (\<lambda>(p, s). length s)") auto

definition is_digit_char :: "char \<Rightarrow> bool" where
  "is_digit_char c = (let n = (of_char c :: nat) in 48 \<le> n \<and> n \<le> 57)"

text \<open>
  \<^verbatim>\<open>str.isdigit\<close> accepts, in the first 256 code points, the ten decimal digits and the
  superscripts two, three and one (178, 179, 185).
\<close>

definition is_unicode_digit :: "char \<Rightarrow> bool" where
  "is_unicode_digit c =
     (let n = (of_char c :: nat) in (48 \<le> n \<and> n \<le> 57) \<or> n = 178 \<or> n = 179 \<or> n = 185)"

definition isdigit :: "string \<Rightarrow> bool" where
  "isdigit s = (s \<noteq> [] \<and> list_all is_unicode_digit s)"

definition int_of_digits :: "string \<Rightarrow> nat" where
  "int_of_digits s = foldl (\<lambda>acc c. 10 * acc + (of_char c - 48)) 0 s"

text \<open>
  \<^verbatim>\<open>int(s)\<close> on a string \<^verbatim>\<open>isdigit\<close> accepted: it raises \<^verbatim>\<open>ValueError\<close> on a
  superscript digit, and on more than 4300 digits (the default limit of integer string
  conversion since CPython 3.11).
\<close>

definition py_int :: "string \<Rightarrow> exn + nat" where
  "py_int s =
     (if \<not> list_all is_digit_char s
      then Inl (PyError (''invalid literal for int() with base 10: '' @ CHR 0x27 # s @ [CHR 0x27]))
      else if length s > 4300
      then Inl (PyError (''Exceeds the limit (4300 digits) for integer string conversion: value has ''
                         @ str_nat (length s)
                         @ '' digits; use sys.set_int_max_str_digits() to increase the limit''))
      else Inr (int_of_digits s))"

section \<open>Data model\<close>

record user =
  username :: string
  name :: string

text \<open>A note as the tracker returns it.\<close>

record issue_note =
  note_id :: int
  note_author :: user
  note_body :: string
  note_created_at :: string

text \<open>
  The comment dictionary built by the fetch: the four copied keys and, when a client
  was given, \<^verbatim>\<open>llm_summary\<close>. The other dictionary shape stored in a thread is
  \<^verbatim>\<open>{'error': ...}\<close>, the marker of a failed retrieval.
\<close>

record comment =
  comment_id :: int
  comment_author :: string
  comment_body :: string
  comment_created_at :: string
  llm_summary :: "string option"

datatype comment_entry = Comment comment | ThreadError string

text \<open>
  An issue object of the tracker. \<open>comments\<close> is \<open>None\<close> while the attribute has not
  been set.
\<close>

record issue =
  iid :: int
  issue_id :: int
  title :: string
  state :: string
  created_at :: string
  updated_at :: string
  closed_at :: "string option"
  author :: user
  assignee :: "user option"
  web_url :: string
  description :: "string option"
  comments :: "comment_entry list option"

section \<open>The provider client\<close>

datatype client = GroqClient string | OpenAIClient string

record chat_request =
  req_model :: string
  req_system :: string
  req_user :: string
  req_max_tokens :: nat
  req_temperature :: rat

text \<open>A response carries the message content of each choice; \<open>None\<close> is a null content.\<close>

datatype chat_response = ChatResponse (choices: "string option list")

text \<open>
  The provider service is outside the program: \<open>llm c r\<close> is what
  \<^verbatim>\<open>c.chat.completions.create(...)\<close> does with request \<open>r\<close>, an exception or a response.
\<close>

type_synonym llm = "client \<Rightarrow> chat_request \<Rightarrow> exn + chat_response"

text \<open>\<^verbatim>\<open>response.choices[0].message.content.strip()\<close>.\<close>

definition response_text :: "chat_response \<Rightarrow> exn + string" where
  "response_text r =
     (case choices r of
        [] \<Rightarrow> Inl (PyError ''list index out of range'')
      | c # _ \<Rightarrow>
          (case c of
             None \<Rightarrow> Inl (PyError (CHR 0x27 # ''NoneType'' @ CHR 0x27 # '' object has no attribute ''
                                     @ CHR 0x27 # ''strip'' @ [CHR 0x27]))
           | Some s \<Rightarrow> Inr (strip s)))"

text \<open>The body of each \<^verbatim>\<open>try\<close> around a completion call: the call, then the extraction.\<close>

definition complete_chat :: "llm \<Rightarrow> client \<Rightarrow> chat_request \<Rightarrow> exn + string" where
  "complete_chat w c r = (case w c r of Inl e \<Rightarrow> Inl e | Inr resp \<Rightarrow> response_text resp)"

definition get_default_model :: "string \<Rightarrow> string" where
  "get_default_model provider =
     (if provider = ''groq'' then ''llama-3.3-70b-versatile''
      else if provider = ''openai'' then ''gpt-3.5-turbo''
      else ''llama-3.3-70b-versatile'')"

text \<open>\<^verbatim>\<open>if not model: model = get_default_model(provider)\<close>.\<close>

definition resolve_model :: "string option \<Rightarrow> string \<Rightarrow> string" where
  "resolve_model model provider =
     (case model of Some m \<Rightarrow> (if m \<noteq> [] then m else get_default_model provider)
                  | None \<Rightarrow> get_default_model provider)"

section \<open>Comment summaries\<close>

definition comment_prompt :: "comment \<Rightarrow> string" where
  "comment_prompt c =
     (let comment_content =
            ''\<newline>    Comment by '' @ comment_author c @ '' at '' @ comment_created_at c @ '':\<newline>    ''
            @ comment_body c @ ''\<newline>    ''
      in ''\<newline>    Please provide a concise summary (1-2 sentences) of this GitLab comment:\<newline>    ''
         @ comment_content
         @ ''\<newline>    Focus on the main point or update in the comment.\<newline>    '')"

definition comment_system :: string where
  "comment_system =
     ''You are a helpful assistant that summarizes software development comments clearly and concisely.''"

definition summarize_comment_with_llm ::
  "llm \<Rightarrow> comment \<Rightarrow> client option \<Rightarrow> string \<Rightarrow> string option \<Rightarrow> string" where
  "summarize_comment_with_llm w c client provider model =
     (case client of
        None \<Rightarrow> ''LLM summarization not available''
      | Some cl \<Rightarrow>
          (case complete_chat w cl
                  \<lparr>req_model = resolve_model model provider, req_system = comment_system,
                   req_user = comment_prompt c, req_max_tokens = 80, req_temperature = 3 / 10\<rparr> of
             Inr text \<Rightarrow> text
           | Inl e \<Rightarrow> ''Error generating comment summary: '' @ str_exn e))"

section \<open>The issue tracker and the fetch\<close>

text \<open>
  The tracker is outside the program. A project is named by its path or by its numeric
  identifier; \<open>projects_get\<close> is \<^verbatim>\<open>gl.projects.get\<close> (\<open>Some e\<close> when it raises),
  \<open>issues_list\<close> is \<^verbatim>\<open>project.issues.list(..., all=True)\<close> for one relation and
  \<open>notes_list\<close> is \<^verbatim>\<open>issue.notes.list(all=True, sort='asc')\<close>. The first argument of
  each is the private token of the connection (\<open>None\<close> for an anonymous one).
\<close>

datatype project_ref = ProjectPath string | ProjectId nat

datatype relation = Assignee | Author

record gitlab =
  projects_get :: "string option \<Rightarrow> project_ref \<Rightarrow> exn option"
  issues_list :: "string option \<Rightarrow> project_ref \<Rightarrow> relation \<Rightarrow> string \<Rightarrow> exn + issue list"
  notes_list :: "string option \<Rightarrow> project_ref \<Rightarrow> issue \<Rightarrow> exn + issue_note list"

text \<open>
  \<^verbatim>\<open>gitlab.Gitlab(gitlab_url, private_token=access_token)\<close> when the token is truthy,
  \<^verbatim>\<open>gitlab.Gitlab(gitlab_url)\<close> otherwise.
\<close>

definition private_token :: "string option \<Rightarrow> string option" where
  "private_token access_token = (if truthy access_token then access_token else None)"

text \<open>The requests sent to the tracker, in the order they are made.\<close>

datatype call = ProjectsGet project_ref | IssuesList relation string | NotesList int

text \<open>
  The locator check at the head of the fetch, which stands before the \<^verbatim>\<open>try\<close>:
  \<open>Inr None\<close> is its \<^verbatim>\<open>else\<close> branch, \<open>Inl e\<close> the \<^verbatim>\<open>ValueError\<close> of
  \<^verbatim>\<open>int(project_url)\<close>, which leaves the function.
\<close>

definition parse_project :: "string \<Rightarrow> exn + project_ref option" where
  "parse_project project_url =
     (if startswith project_url ''https://gitlab.com/''
      then Inr (Some (ProjectPath (remove_all ''https://gitlab.com/'' project_url)))
      else if isdigit project_url
      then (case py_int project_url of Inl e \<Rightarrow> Inl e | Inr n \<Rightarrow> Inr (Some (ProjectId n)))
      else Inr None)"

text \<open>
  The loop under \<^verbatim>\<open># Avoid duplicates\<close>: the set of identifiers is built once, from the
  issues collected before the loop, and each authored issue is appended when its
  \<open>iid\<close> is not in that set.
\<close>

definition append_authored :: "issue list \<Rightarrow> issue list \<Rightarrow> issue list" where
  "append_authored issues authored_issues =
     (let authored_issue_ids = set (map iid issues)
      in foldl (\<lambda>acc i. if iid i \<notin> authored_issue_ids then acc @ [i] else acc)
           issues authored_issues)"

text \<open>
  What the two \<^verbatim>\<open>if\<close> blocks leave in \<^verbatim>\<open>issues\<close> when the tracker answers \<open>A\<close> for the
  assignee relation and \<open>B\<close> for the author relation: the aggregate.
\<close>

definition aggregate :: "bool \<Rightarrow> bool \<Rightarrow> issue list \<Rightarrow> issue list \<Rightarrow> issue list" where
  "aggregate fetch_assignee fetch_author A B =
     (let issues = (if fetch_assignee then A else [])
      in if fetch_author then append_authored issues B else issues)"

text \<open>One comment dictionary per note, with its summary when a client and a provider were given.\<close>

definition make_comment ::
  "llm \<Rightarrow> client option \<Rightarrow> string option \<Rightarrow> string option \<Rightarrow> issue_note \<Rightarrow> comment" where
  "make_comment w llm_client provider model n =
     (let c = \<lparr>comment_id = note_id n, comment_author = username (note_author n),
               comment_body = note_body n, comment_created_at = note_created_at n,
               llm_summary = None\<rparr>
      in if llm_client \<noteq> None \<and> truthy provider
         then c\<lparr>llm_summary := Some (summarize_comment_with_llm w c llm_client (the provider) model)\<rparr>
         else c)"

text \<open>The body of the loop over the issues: the thread of one issue, or the error marker.\<close>

definition thread_of ::
  "gitlab \<Rightarrow> llm \<Rightarrow> string option \<Rightarrow> project_ref \<Rightarrow> client option \<Rightarrow> string option
     \<Rightarrow> string option \<Rightarrow> issue \<Rightarrow> comment_entry list" where
  "thread_of gl w tok project_path llm_client provider model i =
     (case notes_list gl tok project_path i of
        Inr notes \<Rightarrow> map (\<lambda>n. Comment (make_comment w llm_client provider model n)) notes
      | Inl e \<Rightarrow> [ThreadError (''Failed to fetch or summarize comments: '' @ str_exn e)])"

definition attach_comments ::
  "gitlab \<Rightarrow> llm \<Rightarrow> string option \<Rightarrow> project_ref \<Rightarrow> client option \<Rightarrow> string option
     \<Rightarrow> string option \<Rightarrow> issue list \<Rightarrow> call list \<times> issue list" where
  "attach_comments gl w tok project_path llm_client provider model issues =
     (map (\<lambda>i. NotesList (iid i)) issues,
      map (\<lambda>i. i\<lparr>comments := Some (thread_of gl w tok project_path llm_client provider model i)\<rparr>)
        issues)"

text \<open>
  The body of the outer \<^verbatim>\<open>try\<close>: the requests made and either the exception that left
  the body or the issues it returns.
\<close>

definition fetch_body ::
  "gitlab \<Rightarrow> llm \<Rightarrow> string option \<Rightarrow> project_ref \<Rightarrow> string \<Rightarrow> bool \<Rightarrow> bool \<Rightarrow> client option
     \<Rightarrow> string option \<Rightarrow> string option \<Rightarrow> call list \<times> (exn + issue list)" where
  "fetch_body gl w tok project_path uname fetch_assignee fetch_author llm_client provider model =
     (case projects_get gl tok project_path of
        Some e \<Rightarrow> ([ProjectsGet project_path], Inl e)
      | None \<Rightarrow>
          (let calls0 = [ProjectsGet project_path];
               issues0 = [];
               (calls1, r1) =
                  (if fetch_assignee
                   then (calls0 @ [IssuesList Assignee uname],
                         case issues_list gl tok project_path Assignee uname of
                           Inl e \<Rightarrow> Inl e
                         | Inr assigned_issues \<Rightarrow> Inr (issues0 @ assigned_issues))
                   else (calls0, Inr issues0))
           in case r1 of
                Inl e \<Rightarrow> (calls1, Inl e)
              | Inr issues1 \<Rightarrow>
                  (let (calls2, r2) =
                         (if fetch_author
                          then (calls1 @ [IssuesList Author uname],
                                case issues_list gl tok project_path Author uname of
                                  Inl e \<Rightarrow> Inl e
                                | Inr authored_issues \<Rightarrow>
                                    Inr (append_authored issues1 authored_issues))
                          else (calls1, Inr issues1))
                   in case r2 of
                        Inl e \<Rightarrow> (calls2, Inl e)
                      | Inr issues2 \<Rightarrow>
                          (let (calls3, issues3) =
                                 attach_comments gl w tok project_path llm_client provider model
                                   issues2
                           in (calls2 @ calls3, Inr issues3)))))"

text \<open>
  The first component is the sequence of tracker requests made; the second is \<open>Inr\<close>
  of the list the function returns (the empty list from the \<^verbatim>\<open>else\<close> branch of the
  locator check and from both \<^verbatim>\<open>except\<close> clauses, the issues otherwise) or \<open>Inl\<close>
  of the exception that leaves the function, raised by the locator check before the
  \<^verbatim>\<open>try\<close>.
\<close>

definition fetch_issues_by_username ::
  "gitlab \<Rightarrow> llm \<Rightarrow> string \<Rightarrow> string \<Rightarrow> string option \<Rightarrow> bool \<Rightarrow> bool \<Rightarrow> client option
     \<Rightarrow> string option \<Rightarrow> string option \<Rightarrow> call list \<times> (exn + issue list)" where
  "fetch_issues_by_username gl w project_url uname access_token fetch_assignee fetch_author
       llm_client provider model =
     (case parse_project project_url of
        Inl e \<Rightarrow> ([], Inl e)
      | Inr None \<Rightarrow> ([], Inr [])
      | Inr (Some project_path) \<Rightarrow>
          (let tok = private_token access_token;
               (calls, r) = fetch_body gl w tok project_path uname fetch_assignee fetch_author
                              llm_client provider model
           in case r of
                Inl (GitlabError m) \<Rightarrow> (calls, Inr [])
              | Inl (PyError m) \<Rightarrow> (calls, Inr [])
              | Inr issues \<Rightarrow> (calls, Inr issues)))"

section \<open>Issue and collection summaries\<close>

text \<open>
  The object built inside \<^verbatim>\<open>summarize_logic\<close>: its constructor sets six attributes
  and no other, so it has no \<^verbatim>\<open>comments\<close> attribute. \<open>m_iid\<close> is \<open>None\<close> when the
  dictionary had neither \<^verbatim>\<open>iid\<close> nor \<^verbatim>\<open>id\<close>.
\<close>

record mock_issue =
  m_iid :: "int option"
  m_title :: string
  m_state :: string
  m_created_at :: string
  m_description :: "string option"
  m_author :: user

text \<open>
  The summary functions read attributes of whatever object they are given: an issue
  of the tracker or a \<open>mock_issue\<close>.
\<close>

datatype issue_obj = Fetched issue | Mock mock_issue

fun obj_iid :: "issue_obj \<Rightarrow> string" where
  "obj_iid (Fetched i) = str_int (iid i)"
| "obj_iid (Mock m) = (case m_iid m of None \<Rightarrow> ''None'' | Some n \<Rightarrow> str_int n)"

fun obj_title :: "issue_obj \<Rightarrow> string" where
  "obj_title (Fetched i) = title i"
| "obj_title (Mock m) = m_title m"

fun obj_state :: "issue_obj \<Rightarrow> string" where
  "obj_state (Fetched i) = state i"
| "obj_state (Mock m) = m_state m"

fun obj_created_at :: "issue_obj \<Rightarrow> string" where
  "obj_created_at (Fetched i) = created_at i"
| "obj_created_at (Mock m) = m_created_at m"

fun obj_description :: "issue_obj \<Rightarrow> string option" where
  "obj_description (Fetched i) = description i"
| "obj_description (Mock m) = m_description m"

fun obj_author :: "issue_obj \<Rightarrow> user" where
  "obj_author (Fetched i) = author i"
| "obj_author (Mock m) = m_author m"

text \<open>\<^verbatim>\<open>hasattr(issue, 'comments') and issue.comments\<close>: the thread when there is a non-empty one.\<close>

fun obj_comments :: "issue_obj \<Rightarrow> comment_entry list" where
  "obj_comments (Fetched i) = (case comments i of None \<Rightarrow> [] | Some cs \<Rightarrow> cs)"
| "obj_comments (Mock m) = []"

text \<open>\<^verbatim>\<open>c.get('author', 'unknown')\<close> and \<^verbatim>\<open>c.get('body', '')\<close> on a thread entry.\<close>

fun entry_author :: "comment_entry \<Rightarrow> string" where
  "entry_author (Comment c) = comment_author c"
| "entry_author (ThreadError e) = ''unknown''"

fun entry_body :: "comment_entry \<Rightarrow> string" where
  "entry_body (Comment c) = comment_body c"
| "entry_body (ThreadError e) = []"

fun join :: "string \<Rightarrow> string list \<Rightarrow> string" where
  "join sep [] = []"
| "join sep [x] = x"
| "join sep (x # y # ys) = x @ sep @ join sep (y # ys)"

definition comments_text :: "issue_obj \<Rightarrow> string" where
  "comments_text issue =
     join ''\<newline>''
       (map (\<lambda>c. entry_author c @ '': '' @ entry_body c)
          (filter (\<lambda>c. entry_body c \<noteq> []) (obj_comments issue)))"

text \<open>\<^verbatim>\<open>s or d\<close> inside an f-string, for an optional and for a plain string.\<close>

definition or_else :: "string option \<Rightarrow> string \<Rightarrow> string" where
  "or_else s d = (case s of None \<Rightarrow> d | Some t \<Rightarrow> if t = [] then d else t)"

definition issue_content :: "issue_obj \<Rightarrow> string" where
  "issue_content issue =
     ''\<newline>    Issue #'' @ obj_iid issue @ '': '' @ obj_title issue
     @ ''\<newline>    State: '' @ obj_state issue
     @ ''\<newline>    Author: '' @ name (obj_author issue) @ '' (@'' @ username (obj_author issue) @ '')''
     @ ''\<newline>    Created: '' @ obj_created_at issue
     @ ''\<newline>    Description:\<newline>    '' @ or_else (obj_description issue) ''No description provided''
     @ ''\<newline>    Comments:\<newline>    '' @ or_else (Some (comments_text issue)) ''No comments''
     @ ''\<newline>    ''"

definition issue_prompt :: "issue_obj \<Rightarrow> string" where
  "issue_prompt issue =
     ''\<newline>    Please provide a concise summary (2-3 sentences) of this GitLab issue, including the latest updates and discussions from the comments:\<newline>    ''
     @ issue_content issue
     @ ''\<newline>    Focus on:\<newline>    - What the issue is about\<newline>    - Current status/state\<newline>    - Key actionable points or recent discussions from the comments\<newline>    ''"

definition issue_system :: string where
  "issue_system =
     ''You are a helpful assistant that summarizes software development issues clearly and concisely, including the latest comments.''"

definition summarize_issue_with_llm ::
  "llm \<Rightarrow> issue_obj \<Rightarrow> client option \<Rightarrow> string \<Rightarrow> string option \<Rightarrow> string" where
  "summarize_issue_with_llm w issue client provider model =
     (case client of
        None \<Rightarrow> ''LLM summarization not available''
      | Some cl \<Rightarrow>
          (case complete_chat w cl
                  \<lparr>req_model = resolve_model model provider, req_system = issue_system,
                   req_user = issue_prompt issue, req_max_tokens = 200, req_temperature = 3 / 10\<rparr> of
             Inr text \<Rightarrow> text
           | Inl e \<Rightarrow> ''Error generating summary: '' @ str_exn e))"

text \<open>
  The preview of a description, \<^verbatim>\<open>d[:100] + "..." if len(d) > 100 else d\<close>, and the
  lines one issue adds to the overview.
\<close>

definition desc_preview :: "string \<Rightarrow> string" where
  "desc_preview d = (if length d > 100 then take 100 d @ ''...'' else d)"

definition overview_entry :: "issue_obj \<Rightarrow> string" where
  "overview_entry issue =
     ''- Issue #'' @ obj_iid issue @ '': '' @ obj_title issue @ '' ('' @ obj_state issue @ '')\<newline>''
     @ (case obj_description issue of
          None \<Rightarrow> []
        | Some d \<Rightarrow> if d = [] then [] else ''  Description: '' @ desc_preview d @ ''\<newline>'')
     @ ''\<newline>''"

text \<open>The overview: the header, the loop over \<^verbatim>\<open>issues[:10]\<close>, the line for the remainder.\<close>

definition issues_overview :: "issue_obj list \<Rightarrow> string" where
  "issues_overview issues =
     (let overview0 = ''Total issues: '' @ str_nat (length issues) @ ''\<newline>\<newline>'';
          overview1 = foldl (\<lambda>acc issue. acc @ overview_entry issue) overview0 (take 10 issues)
      in if length issues > 10
         then overview1 @ ''... and '' @ str_nat (length issues - 10) @ '' more issues\<newline>''
         else overview1)"

definition collection_prompt :: "issue_obj list \<Rightarrow> string" where
  "collection_prompt issues =
     ''\<newline>    Please provide a high-level summary of this collection of GitLab issues:\<newline>    \<newline>    ''
     @ issues_overview issues
     @ ''\<newline>    \<newline>    Include:\<newline>    - Overall themes or patterns\<newline>    - Distribution of issue states (open/closed)\<newline>    - Key areas of focus or concern\<newline>    - Any notable trends\<newline>    \<newline>    Keep it concise (3-4 sentences).\<newline>    ''"

definition collection_system :: string where
  "collection_system =
     ''You are a helpful assistant that analyzes and summarizes software development issues to provide insights.''"

definition summarize_issues_collection_with_llm ::
  "llm \<Rightarrow> issue_obj list \<Rightarrow> client option \<Rightarrow> string \<Rightarrow> string option \<Rightarrow> string" where
  "summarize_issues_collection_with_llm w issues client provider model =
     (case client of
        None \<Rightarrow> ''No issues to summarize or LLM not available''
      | Some cl \<Rightarrow>
          if issues = [] then ''No issues to summarize or LLM not available''
          else
            (case complete_chat w cl
                    \<lparr>req_model = resolve_model model provider, req_system = collection_system,
                     req_user = collection_prompt issues, req_max_tokens = 200,
                     req_temperature = 3 / 10\<rparr> of
               Inr text \<Rightarrow> text
             | Inl e \<Rightarrow> ''Error generating collection summary: '' @ str_exn e))"

section \<open>The application\<close>

text \<open>
  A key of a JSON object is absent, holds \<^verbatim>\<open>null\<close> or holds a value;
  \<open>get_or k d\<close> is \<^verbatim>\<open>data.get(key, d)\<close>, which answers \<^verbatim>\<open>None\<close> for a \<^verbatim>\<open>null\<close>.
\<close>

datatype 'a json = Absent | Null | Val 'a

fun get_or :: "'a json \<Rightarrow> 'a option \<Rightarrow> 'a option" where
  "get_or Absent d = d"
| "get_or Null d = None"
| "get_or (Val v) d = Some v"

fun to_json :: "'a option \<Rightarrow> 'a json" where
  "to_json None = Null"
| "to_json (Some v) = Val v"

text \<open>
  The process environment: the two import flags of the module, the credentials, and
  whether the constructor of each client raises for a key.
\<close>

record env =
  GROQ_AVAILABLE :: bool
  OPENAI_AVAILABLE :: bool
  GROQ_API_KEY :: "string option"
  OPENAI_API_KEY :: "string option"
  GITLAB_ACCESS_TOKEN :: "string option"
  Groq_raises :: "string \<Rightarrow> exn option"
  OpenAI_raises :: "string \<Rightarrow> exn option"

definition setup_llm_client :: "env \<Rightarrow> string \<Rightarrow> string option \<Rightarrow> client option \<times> string" where
  "setup_llm_client ev provider api_key =
     (if lower provider = ''groq'' then
        (if \<not> GROQ_AVAILABLE ev then (None, provider)
         else (case py_or api_key (GROQ_API_KEY ev) of
                 None \<Rightarrow> (None, provider)
               | Some k \<Rightarrow>
                   if k = [] then (None, provider)
                   else (case Groq_raises ev k of
                           Some e \<Rightarrow> (None, provider)
                         | None \<Rightarrow> (Some (GroqClient k), ''groq''))))
      else if lower provider = ''openai'' then
        (if \<not> OPENAI_AVAILABLE ev then (None, provider)
         else (case py_or api_key (OPENAI_API_KEY ev) of
                 None \<Rightarrow> (None, provider)
               | Some k \<Rightarrow>
                   if k = [] then (None, provider)
                   else (case OpenAI_raises ev k of
                           Some e \<Rightarrow> (None, provider)
                         | None \<Rightarrow> (Some (OpenAIClient k), ''openai''))))
      else (None, provider))"

text \<open>The two module globals that cache the client.\<close>

record app_state =
  llm_client_global :: "client option"
  llm_provider_global :: "string option"

definition get_llm_client :: "env \<Rightarrow> app_state \<Rightarrow> (client option \<times> string option) \<times> app_state" where
  "get_llm_client ev st =
     (if llm_client_global st = None then
        (if truthy (GROQ_API_KEY ev) then
           (let (c, p) = setup_llm_client ev ''groq'' (GROQ_API_KEY ev)
            in ((c, Some p), \<lparr>llm_client_global = c, llm_provider_global = Some p\<rparr>))
         else if truthy (OPENAI_API_KEY ev) then
           (let (c, p) = setup_llm_client ev ''openai'' (OPENAI_API_KEY ev)
            in ((c, Some p), \<lparr>llm_client_global = c, llm_provider_global = Some p\<rparr>))
         else ((None, None), st))
      else ((llm_client_global st, llm_provider_global st), st))"

text \<open>
  The dictionary of one issue in a request or a response body. The keys the data model
  makes optional may hold \<^verbatim>\<open>null\<close>; the others are absent or hold a value.
\<close>

record issue_data =
  d_iid :: "int option"
  d_id :: "int option"
  d_title :: "string option"
  d_state :: "string option"
  d_created_at :: "string option"
  d_updated_at :: "string option"
  d_closed_at :: "string json"
  d_author :: "user option"
  d_assignee :: "user json"
  d_web_url :: "string option"
  d_description :: "string json"
  d_comments :: "comment_entry list option"

record individual_summary =
  s_issue_id :: "int option"
  s_title :: string
  s_summary :: string

text \<open>A response body: each key is absent (\<open>None\<close>, or \<open>Absent\<close>) or present.\<close>

record response =
  r_error :: "string option"
  r_success :: "bool option"
  r_issues :: "issue_data list option"
  r_count :: "nat option"
  r_project_url :: "string option"
  r_username :: "string option"
  r_provider :: "string json"
  r_model :: "string option"
  r_query :: "string json"
  r_individual_summaries :: "individual_summary list option"
  r_collection_summary :: "string option"
  r_summary_error :: "string option"

definition empty_response :: response where
  "empty_response =
     \<lparr>r_error = None, r_success = None, r_issues = None, r_count = None, r_project_url = None,
      r_username = None, r_provider = Absent, r_model = None, r_query = Absent,
      r_individual_summaries = None, r_collection_summary = None, r_summary_error = None\<rparr>"

definition error_response :: "string \<Rightarrow> response" where
  "error_response msg = empty_response\<lparr>r_error := Some msg, r_success := Some False\<rparr>"

text \<open>\<^verbatim>\<open>a.update(b)\<close>: every key present in \<open>b\<close> replaces the key of \<open>a\<close>.\<close>

definition upd :: "'a option \<Rightarrow> 'a option \<Rightarrow> 'a option" where
  "upd a b = (case b of None \<Rightarrow> a | Some v \<Rightarrow> Some v)"

definition upd_json :: "'a json \<Rightarrow> 'a json \<Rightarrow> 'a json" where
  "upd_json a b = (case b of Absent \<Rightarrow> a | _ \<Rightarrow> b)"

definition update_response :: "response \<Rightarrow> response \<Rightarrow> response" where
  "update_response a b =
     \<lparr>r_error = upd (r_error a) (r_error b), r_success = upd (r_success a) (r_success b),
      r_issues = upd (r_issues a) (r_issues b), r_count = upd (r_count a) (r_count b),
      r_project_url = upd (r_project_url a) (r_project_url b),
      r_username = upd (r_username a) (r_username b),
      r_provider = upd_json (r_provider a) (r_provider b),
      r_model = upd (r_model a) (r_model b), r_query = upd_json (r_query a) (r_query b),
      r_individual_summaries = upd (r_individual_summaries a) (r_individual_summaries b),
      r_collection_summary = upd (r_collection_summary a) (r_collection_summary b),
      r_summary_error = upd (r_summary_error a) (r_summary_error b)\<rparr>"

subsection \<open>Fetching\<close>

record fetch_request =
  f_project_url :: "string option"
  f_username :: "string option"
  f_user :: "string option"
  f_access_token :: "string option"
  f_assignee_only :: bool
  f_author_only :: bool
  f_summarize :: bool
  f_query :: "string json"
  f_summary_type :: "string json"
  f_provider :: "string json"
  f_model :: "string json"

text \<open>The dictionary \<^verbatim>\<open>fetch_issues_logic\<close> builds for one issue.\<close>

definition to_issue_data :: "issue \<Rightarrow> issue_data" where
  "to_issue_data i =
     \<lparr>d_iid = Some (iid i), d_id = Some (issue_id i), d_title = Some (title i),
      d_state = Some (state i), d_created_at = Some (created_at i),
      d_updated_at = Some (updated_at i), d_closed_at = to_json (closed_at i),
      d_author = Some \<lparr>username = username (author i), name = name (author i)\<rparr>,
      d_assignee = (case assignee i of
                      None \<Rightarrow> Null
                    | Some a \<Rightarrow> Val \<lparr>username = username a, name = name a\<rparr>),
      d_web_url = Some (web_url i), d_description = to_json (description i),
      d_comments = None\<rparr>"

text \<open>
  \<open>Inl e\<close> is an exception that leaves \<^verbatim>\<open>fetch_issues_logic\<close>; the routes that call it
  answer such an exception with status 500.
\<close>

definition fetch_issues_logic ::
  "gitlab \<Rightarrow> llm \<Rightarrow> env \<Rightarrow> fetch_request \<Rightarrow> call list \<times> (exn + response \<times> nat)" where
  "fetch_issues_logic gl w ev data =
     (let project_url = f_project_url data;
          uname = py_or (f_username data) (f_user data)
      in if \<not> truthy project_url \<or> \<not> truthy uname
         then ([], Inr (error_response ''Missing required fields: project_url and username'', 400))
         else
           (let access_token = py_or (f_access_token data) (GITLAB_ACCESS_TOKEN ev);
                fetch_assignee = (\<not> f_author_only data);
                fetch_author = (\<not> f_assignee_only data);
                (calls, r) =
                   fetch_issues_by_username gl w (the project_url) (the uname) access_token
                     fetch_assignee fetch_author None None None
            in case r of
                 Inl e \<Rightarrow> (calls, Inl e)
               | Inr issues \<Rightarrow>
                   (let issues_data = map to_issue_data issues
                    in (calls,
                        Inr (empty_response\<lparr>r_success := Some True, r_issues := Some issues_data,
                               r_count := Some (length issues_data), r_project_url := project_url,
                               r_username := uname\<rparr>,
                             200)))))"

subsection \<open>Summarizing\<close>

record summarize_request =
  s_issues :: "issue_data list"
  s_query :: "string json"
  s_type :: "string json"
  s_provider :: "string json"
  s_model :: "string json"

definition MockIssue :: "issue_data \<Rightarrow> mock_issue" where
  "MockIssue d =
     \<lparr>m_iid = (case d_iid d of Some n \<Rightarrow> Some n | None \<Rightarrow> d_id d),
      m_title = (case d_title d of Some t \<Rightarrow> t | None \<Rightarrow> []),
      m_state = (case d_state d of Some t \<Rightarrow> t | None \<Rightarrow> []),
      m_created_at = (case d_created_at d of Some t \<Rightarrow> t | None \<Rightarrow> []),
      m_description = get_or (d_description d) (Some []),
      m_author = (case d_author d of
                    Some a \<Rightarrow> a
                  | None \<Rightarrow> \<lparr>username = ''unknown'', name = ''Unknown''\<rparr>)\<rparr>"

text \<open>
  The block under \<^verbatim>\<open># Use requested provider if different from current\<close>. A \<^verbatim>\<open>null\<close>
  provider reaches \<^verbatim>\<open>provider.lower()\<close> and raises.
\<close>

definition switch_provider ::
  "env \<Rightarrow> string option \<Rightarrow> client option \<Rightarrow> string option
     \<Rightarrow> exn + (client option \<times> string option)" where
  "switch_provider ev provider llm_client current_provider =
     (if provider \<noteq> current_provider then
        (let api_key = (if provider = Some ''groq'' then GROQ_API_KEY ev else OPENAI_API_KEY ev)
         in if truthy api_key then
              (case provider of
                 None \<Rightarrow> Inl (PyError (CHR 0x27 # ''NoneType'' @ CHR 0x27
                                       # '' object has no attribute '' @ CHR 0x27 # ''lower''
                                       @ [CHR 0x27]))
               | Some p \<Rightarrow> (let (c, p') = setup_llm_client ev p api_key in Inr (c, Some p')))
            else Inr (llm_client, current_provider))
      else Inr (llm_client, current_provider))"

text \<open>The overview and the prompt of the query branch.\<close>

definition query_overview :: "string \<Rightarrow> issue_obj list \<Rightarrow> string" where
  "query_overview query mock_issues =
     foldl (\<lambda>acc issue. acc @ ''- Issue #'' @ obj_iid issue @ '': '' @ obj_title issue
                          @ '' ('' @ obj_state issue @ '')\<newline>'')
       (''User Query: '' @ query @ ''\<newline>\<newline>Issues Summary:\<newline>'') (take 10 mock_issues)"

definition query_prompt :: "string \<Rightarrow> issue_obj list \<Rightarrow> string" where
  "query_prompt query mock_issues =
     ''\<newline>        Based on the user'' @ CHR 0x27 # ''s query: '' @ CHR 0x22 # query @ CHR 0x22
     # ''\<newline>        Please analyze these GitLab issues and provide a relevant response:\<newline>        ''
     @ query_overview query mock_issues
     @ ''\<newline>        Focus on answering the user'' @ CHR 0x27
     # ''s specific question while providing insights from the issues.\<newline>        ''"

definition query_system :: string where
  "query_system =
     ''You are a helpful assistant that analyzes GitLab issues and answers user questions.''"

text \<open>
  Which branch produces \<^verbatim>\<open>collection_summary\<close>: the query branch when \<^verbatim>\<open>if query:\<close>
  holds, the standard collection summary otherwise.
\<close>

datatype summary_path = QueryDirected | StandardCollection

definition summary_path_of :: "string option \<Rightarrow> summary_path" where
  "summary_path_of query = (if truthy query then QueryDirected else StandardCollection)"

definition collection_summary_of ::
  "llm \<Rightarrow> string option \<Rightarrow> issue_obj list \<Rightarrow> client option \<Rightarrow> string \<Rightarrow> string \<Rightarrow> string" where
  "collection_summary_of w query mock_issues llm_client current_provider model =
     (case summary_path_of query of
        QueryDirected \<Rightarrow>
          (case llm_client of
             None \<Rightarrow> ''Error generating custom summary: '' @ CHR 0x27 # ''NoneType'' @ CHR 0x27
                       # '' object has no attribute '' @ CHR 0x27 # ''chat'' @ [CHR 0x27]
           | Some cl \<Rightarrow>
               (case complete_chat w cl
                       \<lparr>req_model = model, req_system = query_system,
                        req_user = query_prompt (the query) mock_issues, req_max_tokens = 300,
                        req_temperature = 3 / 10\<rparr> of
                  Inr text \<Rightarrow> text
                | Inl e \<Rightarrow> ''Error generating custom summary: '' @ str_exn e))
      | StandardCollection \<Rightarrow>
          summarize_issues_collection_with_llm w mock_issues llm_client current_provider
            (Some model))"

definition summarize_logic ::
  "env \<Rightarrow> llm \<Rightarrow> app_state \<Rightarrow> summarize_request \<Rightarrow> (exn + response \<times> nat) \<times> app_state" where
  "summarize_logic ev w st data =
     (let issues_data = s_issues data;
          query = get_or (s_query data) (Some []);
          summary_type = get_or (s_type data) (Some ''collection'');
          provider = get_or (s_provider data) (Some ''groq'');
          model = get_or (s_model data) None
      in if issues_data = []
         then (Inr (error_response ''No issues provided for summarization'', 400), st)
         else
           (let ((llm_client, current_provider), st') = get_llm_client ev st
            in if llm_client = None
               then (Inr (error_response
                            ''No AI provider available. Set GROQ_API_KEY or OPENAI_API_KEY'', 400),
                     st')
               else
                 (case switch_provider ev provider llm_client current_provider of
                    Inl e \<Rightarrow> (Inl e, st')
                  | Inr (llm_client, current_provider) \<Rightarrow>
                      (let cp = (case current_provider of Some p \<Rightarrow> p | None \<Rightarrow> ''None'');
                           model = resolve_model model cp;
                           mock_issues = map (\<lambda>d. Mock (MockIssue d)) issues_data;
                           results = empty_response\<lparr>r_success := Some True,
                                       r_provider := to_json current_provider,
                                       r_model := Some model, r_query := to_json query\<rparr>;
                           results =
                             (if summary_type = Some ''individual''
                              then results\<lparr>r_individual_summaries :=
                                     Some (map (\<lambda>issue.
                                             \<lparr>s_issue_id = (case issue of Mock m \<Rightarrow> m_iid m
                                                             | Fetched i \<Rightarrow> Some (iid i)),
                                              s_title = obj_title issue,
                                              s_summary = summarize_issue_with_llm w issue
                                                            llm_client cp (Some model)\<rparr>)
                                           mock_issues)\<rparr>
                              else results);
                           collection_summary =
                             collection_summary_of w query mock_issues llm_client cp model
                       in (Inr (results\<lparr>r_collection_summary := Some collection_summary\<rparr>, 200),
                           st')))))"

subsection \<open>Fetching and summarizing in one call\<close>

text \<open>The dictionary \<^verbatim>\<open>summarize_data\<close> built from the request and the fetched issues.\<close>

definition summarize_data_of :: "fetch_request \<Rightarrow> issue_data list \<Rightarrow> summarize_request" where
  "summarize_data_of data issues =
     \<lparr>s_issues = issues,
      s_query = to_json (get_or (f_query data) (Some [])),
      s_type = to_json (get_or (f_summary_type data) (Some ''collection'')),
      s_provider = to_json (get_or (f_provider data) (Some ''groq'')),
      s_model = to_json (get_or (f_model data) None)\<rparr>"

definition fetch_and_summarize ::
  "gitlab \<Rightarrow> llm \<Rightarrow> env \<Rightarrow> app_state \<Rightarrow> fetch_request
     \<Rightarrow> (call list \<times> response \<times> nat) \<times> app_state" where
  "fetch_and_summarize gl w ev st data =
     (case fetch_issues_logic gl w ev data of
        (calls, Inl e) \<Rightarrow> ((calls, error_response (str_exn e), 500), st)
      | (calls, Inr (fetch_data, fetch_status)) \<Rightarrow>
         if fetch_status \<noteq> 200 \<or> r_success fetch_data \<noteq> Some True
         then ((calls, fetch_data, fetch_status), st)
         else
           (let issues = (case r_issues fetch_data of Some xs \<Rightarrow> xs | None \<Rightarrow> [])
            in if f_summarize data \<and> issues \<noteq> []
               then
                 (let summarize_data = summarize_data_of data issues
                  in case summarize_logic ev w st summarize_data of
                       (Inr (summary_data, summary_status), st') \<Rightarrow>
                         if summary_status = 200
                         then ((calls, update_response fetch_data summary_data, 200), st')
                         else ((calls, fetch_data, 200), st')
                     | (Inl e, st') \<Rightarrow>
                         ((calls, fetch_data\<lparr>r_summary_error := Some (str_exn e)\<rparr>, 200), st'))
               else ((calls, fetch_data, 200), st)))"

section \<open>What a summarization call site is expected to return\<close>


section \<open>Example values\<close>

definition demo_user :: user where
  "demo_user = \<lparr>username = ''alice'', name = ''Alice''\<rparr>"

definition demo_issue :: "int \<Rightarrow> issue" where
  "demo_issue n =
     \<lparr>iid = n, issue_id = 1000 + n, title = ''Crash on start'', state = ''opened'',
      created_at = ''2024-01-01T00:00:00Z'', updated_at = ''2024-01-02T00:00:00Z'',
      closed_at = None, author = demo_user, assignee = Some demo_user,
      web_url = ''https://gitlab.com/g/p/-/issues'', description = None, comments = None\<rparr>"

definition demo_note :: issue_note where
  "demo_note = \<lparr>note_id = 7, note_author = demo_user, note_body = ''Looking into it'',
                 note_created_at = ''2024-01-03T00:00:00Z''\<rparr>"

text \<open>A tracker given by what each of its three operations answers.\<close>

definition demo_gitlab ::
  "exn option \<Rightarrow> (exn + issue list) \<Rightarrow> (exn + issue list) \<Rightarrow> (issue \<Rightarrow> exn + issue_note list)
     \<Rightarrow> gitlab" where
  "demo_gitlab pg assigned authored notes =
     \<lparr>projects_get = (\<lambda>tok p. pg),
      issues_list = (\<lambda>tok p r u. case r of Assignee \<Rightarrow> assigned | Author \<Rightarrow> authored),
      notes_list = (\<lambda>tok p i. notes i)\<rparr>"

definition demo_env :: env where
  "demo_env =
     \<lparr>GROQ_AVAILABLE = True, OPENAI_AVAILABLE = True, GROQ_API_KEY = Some ''gsk-1'',
      OPENAI_API_KEY = Some ''sk-1'', GITLAB_ACCESS_TOKEN = None,
      Groq_raises = (\<lambda>k. None), OpenAI_raises = (\<lambda>k. None)\<rparr>"

definition demo_request :: fetch_request where
  "demo_request =
     \<lparr>f_project_url = Some ''42'', f_username = Some ''alice'', f_user = None,
      f_access_token = None, f_assignee_only = False, f_author_only = False,
      f_summarize = False, f_query = Absent, f_summary_type = Absent,
      f_provider = Absent, f_model = Absent\<rparr>"

text \<open>Twelve rebuilt issues: the first with a long description, the second with none,
  the third with an empty one, the others with a short one.\<close>

definition demo_mock :: "int \<Rightarrow> mock_issue" where
  "demo_mock n =
     \<lparr>m_iid = Some n, m_title = (if n = 2 then ''Docs'' else ''Crash''),
      m_state = (if even n then ''closed'' else ''opened''), m_created_at = ''2024-01-01'',
      m_description = (if n = 1 then Some (replicate 101 (CHR ''x''))
                       else if n = 2 then None
                       else if n = 3 then Some []
                       else Some ''Short''),
      m_author = demo_user\<rparr>"

definition demo_mocks :: "issue_obj list" where
  "demo_mocks = map (\<lambda>n. Mock (demo_mock n)) [1, 2, 3, 4, 5, 6, 7, 8, 9, 10, 11, 12]"

text \<open>A provider that answers with the system instruction it was sent, one that answers
  with an empty content, and one that raises.\<close>

definition echo_llm :: llm where
  "echo_llm c r = Inr (ChatResponse [Some (req_system r)])"



definition empty_state :: app_state where
  "empty_state = \<lparr>llm_client_global = None, llm_provider_global = None\<rparr>"

definition no_key_env :: env where
  "no_key_env = demo_env\<lparr>GROQ_API_KEY := None, OPENAI_API_KEY := None\<rparr>"

definition demo_summarize_request :: summarize_request where
  "demo_summarize_request =
     \<lparr>s_issues = [to_issue_data (demo_issue 1)], s_query = Absent, s_type = Absent,
      s_provider = Absent, s_model = Absent\<rparr>"

definition demo_llm :: llm where
  "demo_llm c r = Inr (ChatResponse [Some '' A summary. ''])"

section \<open>The aggregator\<close>

lemma foldl_append_if:
  "foldl (\<lambda>acc i. if P i then acc @ [i] else acc) acc xs = acc @ filter P xs"
  by (induction xs arbitrary: acc) auto

lemma append_authored_filter:
  "append_authored A B = A @ filter (\<lambda>b. iid b \<notin> iid ` set A) B"
  by (simp add: append_authored_def foldl_append_if)

lemma fetch_shape:
  assumes "parse_project url = Inr (Some p)"
    and "projects_get gl (private_token tok) p = None"
    and "fa \<longrightarrow> issues_list gl (private_token tok) p Assignee u = Inr A"
    and "fau \<longrightarrow> issues_list gl (private_token tok) p Author u = Inr B"
  shows "fetch_issues_by_username gl w url u tok fa fau c pr m =
         ([ProjectsGet p] @ (if fa then [IssuesList Assignee u] else [])
            @ (if fau then [IssuesList Author u] else [])
            @ map (\<lambda>i. NotesList (iid i)) (aggregate fa fau A B),
          Inr (map (\<lambda>i. i\<lparr>comments := Some (thread_of gl w (private_token tok) p c pr m i)\<rparr>)
                 (aggregate fa fau A B)))"
  using assms
  by (auto simp: fetch_issues_by_username_def fetch_body_def Let_def aggregate_def
      attach_comments_def split: prod.splits option.splits sum.splits exn.splits if_splits)

lemma distinct_iid_merge:
  assumes "distinct (map iid A)" and "distinct (map iid B)"
  shows "distinct (map iid (A @ filter (\<lambda>b. iid b \<notin> iid ` set A) B))"
  using assms by (auto simp: distinct_map_filter) (metis image_eqI)

lemma parse_project_42: "parse_project ''42'' = Inr (Some (ProjectId 42))"
  by (simp add: parse_project_def startswith_def isdigit_def is_unicode_digit_def py_int_def
      is_digit_char_def int_of_digits_def)

text \<open>
  C1 (as amended). When both relations are fetched and the tracker answers \<open>A\<close> for the
  assignee relation and \<open>B\<close> for the author relation, the issues returned are \<open>A\<close> in
  its order followed by the issues of \<open>B\<close> whose \<open>iid\<close> does not occur in \<open>A\<close>, in the
  order of \<open>B\<close>, each with its thread attached. The result is no longer than \<open>A\<close> and \<open>B\<close>
  together, the \<open>iid\<close>s of the result are exactly those of \<open>A\<close> and \<open>B\<close>, and the result
  has no two issues with the same \<open>iid\<close> provided neither \<open>A\<close> nor \<open>B\<close> has.
\<close>

theorem C1_merge_assignee_first:
  assumes "parse_project url = Inr (Some p)"
    and "projects_get gl (private_token tok) p = None"
    and "issues_list gl (private_token tok) p Assignee u = Inr A"
    and "issues_list gl (private_token tok) p Author u = Inr B"
  shows "\<exists>out. snd (fetch_issues_by_username gl w url u tok True True c pr m) = Inr out
           \<and> out = map (\<lambda>i. i\<lparr>comments := Some (thread_of gl w (private_token tok) p c pr m i)\<rparr>)
                     (A @ filter (\<lambda>b. iid b \<notin> iid ` set A) B)
           \<and> length out \<le> length A + length B
           \<and> iid ` set out = iid ` set A \<union> iid ` set B
           \<and> (distinct (map iid A) \<and> distinct (map iid B) \<longrightarrow> distinct (map iid out))"
proof -
  let ?merged = "A @ filter (\<lambda>b. iid b \<notin> iid ` set A) B"
  let ?out = "map (\<lambda>i. i\<lparr>comments := Some (thread_of gl w (private_token tok) p c pr m i)\<rparr>)
                ?merged"
  have agg: "aggregate True True A B = ?merged"
    by (simp add: aggregate_def append_authored_filter)
  have out: "snd (fetch_issues_by_username gl w url u tok True True c pr m) = Inr ?out"
    using fetch_shape [OF assms(1,2), of True u A True B w c pr m] assms(3,4)
    by (simp add: agg)
  have ids: "map iid ?out = map iid ?merged"
    by (simp add: comp_def)
  have len: "length ?out \<le> length A + length B"
    by simp
  have "iid ` set ?out = set (map iid ?out)" by (rule set_map [symmetric])
  also have "\<dots> = set (map iid ?merged)" unfolding ids ..
  also have "\<dots> = iid ` set A \<union> iid ` set B" by auto
  finally have sets: "iid ` set ?out = iid ` set A \<union> iid ` set B" .
  have dist: "distinct (map iid A) \<and> distinct (map iid B) \<longrightarrow> distinct (map iid ?out)"
    unfolding ids using distinct_iid_merge by blast
  from out len sets dist show ?thesis by blast
qed

theorem C1_merge_assignee_first_witness:
  "\<exists>out. snd (fetch_issues_by_username
       (demo_gitlab None (Inr [demo_issue 1, demo_issue 2]) (Inr [demo_issue 2, demo_issue 3])
          (\<lambda>i. Inr []))
       demo_llm ''42'' ''alice'' None True True None None None) = Inr out
     \<and> map iid out = [1, 2, 3]"
proof -
  let ?gl = "demo_gitlab None (Inr [demo_issue 1, demo_issue 2])
               (Inr [demo_issue 2, demo_issue 3]) (\<lambda>i. Inr [])"
  have g: "projects_get ?gl (private_token None) (ProjectId 42) = None"
    by (simp add: demo_gitlab_def)
  have a: "issues_list ?gl (private_token None) (ProjectId 42) Assignee ''alice''
             = Inr [demo_issue 1, demo_issue 2]"
    by (simp add: demo_gitlab_def)
  have b: "issues_list ?gl (private_token None) (ProjectId 42) Author ''alice''
             = Inr [demo_issue 2, demo_issue 3]"
    by (simp add: demo_gitlab_def)
  from C1_merge_assignee_first [OF parse_project_42 g a b, of demo_llm None None None]
  show ?thesis by (auto simp: demo_issue_def comp_def)
qed

text \<open>
  The claim as stated fails: the assignee sequence is kept verbatim, so two entries of
  it with one \<open>iid\<close> are both in the result; and two entries of the author sequence with
  one \<open>iid\<close> that the assignee sequence lacks are both appended.
\<close>

theorem C1_counterexample:
  "snd (fetch_issues_by_username
       (demo_gitlab None (Inr [demo_issue 1, (demo_issue 1)\<lparr>title := ''Again''\<rparr>]) (Inr [])
          (\<lambda>i. Inr []))
       demo_llm ''42'' ''alice'' None True True None None None)
     = Inr [(demo_issue 1)\<lparr>comments := Some []\<rparr>,
            (demo_issue 1)\<lparr>title := ''Again'', comments := Some []\<rparr>]
   \<and> snd (fetch_issues_by_username
       (demo_gitlab None (Inr []) (Inr [demo_issue 2, (demo_issue 2)\<lparr>title := ''Again''\<rparr>])
          (\<lambda>i. Inr []))
       demo_llm ''42'' ''alice'' None True True None None None)
     = Inr [(demo_issue 2)\<lparr>comments := Some []\<rparr>,
            (demo_issue 2)\<lparr>title := ''Again'', comments := Some []\<rparr>]"
  by (simp add: fetch_issues_by_username_def fetch_body_def parse_project_42
      private_token_def demo_gitlab_def append_authored_def attach_comments_def thread_of_def
      demo_issue_def)

section \<open>Upstream failures\<close>

text \<open>
  C2 (as amended). When the project lookup raises, or the listing of a relation that is
  fetched raises, \<open>fetch_issues_by_username\<close> returns the empty list: the value it also
  returns for a fetch that succeeds and finds no issue.
\<close>

theorem C2_upstream_error_returns_empty_list:
  assumes "parse_project url = Inr (Some p)"
    and "projects_get gl (private_token tok) p = Some e
         \<or> (fa \<and> issues_list gl (private_token tok) p Assignee u = Inl e)
         \<or> (fau \<and> issues_list gl (private_token tok) p Author u = Inl e)"
  shows "snd (fetch_issues_by_username gl w url u tok fa fau c pr m) = Inr []"
  using assms
  by (auto simp: fetch_issues_by_username_def fetch_body_def Let_def
      split: prod.splits option.splits sum.splits exn.splits if_splits)

theorem C2_upstream_error_returns_empty_list_witness:
  "snd (fetch_issues_by_username
          (demo_gitlab None (Inl (PyError ''Connection refused'')) (Inr [demo_issue 3])
             (\<lambda>i. Inr []))
          demo_llm ''42'' ''alice'' None True True None None None) = Inr []"
proof -
  let ?gl = "demo_gitlab None (Inl (PyError ''Connection refused'')) (Inr [demo_issue 3])
               (\<lambda>i. Inr [])"
  have "projects_get ?gl (private_token None) (ProjectId 42)
          = Some (PyError ''Connection refused'')
        \<or> (True \<and> issues_list ?gl (private_token None) (ProjectId 42) Assignee ''alice''
                    = Inl (PyError ''Connection refused''))
        \<or> (True \<and> issues_list ?gl (private_token None) (ProjectId 42) Author ''alice''
                    = Inl (PyError ''Connection refused''))"
    by (simp add: demo_gitlab_def)
  from C2_upstream_error_returns_empty_list [OF parse_project_42 this]
  show ?thesis .
qed

text \<open>
  The claim as stated fails: a project lookup that raises a not-found error yields the
  empty list, equal to the result of a fetch that succeeds with no issues.
\<close>

theorem C2_counterexample:
  "snd (fetch_issues_by_username
          (demo_gitlab (Some (GitlabError ''404 Project Not Found'')) (Inr []) (Inr [])
             (\<lambda>i. Inr []))
          demo_llm ''42'' ''alice'' None True True None None None) = Inr []
   \<and> snd (fetch_issues_by_username
          (demo_gitlab (Some (GitlabError ''404 Project Not Found'')) (Inr []) (Inr [])
             (\<lambda>i. Inr []))
          demo_llm ''42'' ''alice'' None True True None None None)
     = snd (fetch_issues_by_username
          (demo_gitlab None (Inr []) (Inr []) (\<lambda>i. Inr []))
          demo_llm ''42'' ''alice'' None True True None None None)"
  by (simp add: fetch_issues_by_username_def fetch_body_def parse_project_42
      private_token_def demo_gitlab_def append_authored_def attach_comments_def)

section \<open>Thread failures\<close>

lemma map_of_three:
  "length xs = 3 \<Longrightarrow> map f xs = [f (xs ! 0), f (xs ! 1), f (xs ! 2)]"
  by (cases xs; cases "tl xs"; cases "tl (tl xs)") auto

text \<open>
  C3. When the fetch reaches the loop over the issues, each issue of the aggregate is
  returned at its position with all its fields but \<open>comments\<close> unchanged. An issue whose
  thread retrieval raises carries exactly the error marker as its thread. Every other
  issue carries one comment per note of its thread, in the order of the notes, holding
  the identifier, the author's username, the body and the creation time of the note
  and, when a client and a provider were given, the summary of that comment, whatever
  happened to its neighbours.
\<close>

theorem C3_thread_failure_stays_on_its_issue:
  assumes "parse_project url = Inr (Some p)"
    and "projects_get gl (private_token tok) p = None"
    and "fa \<longrightarrow> issues_list gl (private_token tok) p Assignee u = Inr A"
    and "fau \<longrightarrow> issues_list gl (private_token tok) p Author u = Inr B"
  shows "\<exists>out. snd (fetch_issues_by_username gl w url u tok fa fau c pr m) = Inr out
         \<and> length out = length (aggregate fa fau A B)
         \<and> (\<forall>k < length (aggregate fa fau A B).
              out ! k =
                (aggregate fa fau A B ! k)
                  \<lparr>comments := Some
                     (case notes_list gl (private_token tok) p (aggregate fa fau A B ! k) of
                        Inl e \<Rightarrow> [ThreadError (''Failed to fetch or summarize comments: ''
                                                @ str_exn e)]
                      | Inr notes \<Rightarrow>
                          map (\<lambda>n. Comment
                                 \<lparr>comment_id = note_id n,
                                  comment_author = username (note_author n),
                                  comment_body = note_body n,
                                  comment_created_at = note_created_at n,
                                  llm_summary =
                                    (if c \<noteq> None \<and> truthy pr
                                     then Some (summarize_comment_with_llm w
                                            \<lparr>comment_id = note_id n,
                                             comment_author = username (note_author n),
                                             comment_body = note_body n,
                                             comment_created_at = note_created_at n,
                                             llm_summary = None\<rparr> c (the pr) m)
                                     else None)\<rparr>)
                            notes)\<rparr>)"
  unfolding fetch_shape [OF assms]
  by (simp add: thread_of_def make_comment_def Let_def split: sum.splits)

theorem C3_thread_failure_stays_on_its_issue_witness:
  "\<exists>out. snd (fetch_issues_by_username
       (demo_gitlab None (Inr [demo_issue 4, demo_issue 5, demo_issue 6]) (Inr [])
          (\<lambda>i. if iid i = 5 then Inl (PyError ''Connection reset'') else Inr [demo_note]))
       demo_llm ''42'' ''alice'' None True True (Some (GroqClient ''gsk-1'')) (Some ''groq'') None)
     = Inr out
   \<and> map comments out
   = [Some [Comment \<lparr>comment_id = 7, comment_author = ''alice'',
                     comment_body = ''Looking into it'',
                     comment_created_at = ''2024-01-03T00:00:00Z'',
                     llm_summary = Some ''A summary.''\<rparr>],
      Some [ThreadError ''Failed to fetch or summarize comments: Connection reset''],
      Some [Comment \<lparr>comment_id = 7, comment_author = ''alice'',
                     comment_body = ''Looking into it'',
                     comment_created_at = ''2024-01-03T00:00:00Z'',
                     llm_summary = Some ''A summary.''\<rparr>]]"
proof -
  let ?gl = "demo_gitlab None (Inr [demo_issue 4, demo_issue 5, demo_issue 6]) (Inr [])
               (\<lambda>i. if iid i = 5 then Inl (PyError ''Connection reset'') else Inr [demo_note])"
  let ?cl = "Some (GroqClient ''gsk-1'')"
  let ?c = "\<lparr>comment_id = 7, comment_author = ''alice'', comment_body = ''Looking into it'',
             comment_created_at = ''2024-01-03T00:00:00Z'', llm_summary = None\<rparr>"
  have g: "projects_get ?gl (private_token None) (ProjectId 42) = None"
    by (simp add: demo_gitlab_def)
  have a: "True \<longrightarrow> issues_list ?gl (private_token None) (ProjectId 42) Assignee ''alice''
             = Inr [demo_issue 4, demo_issue 5, demo_issue 6]"
    by (simp add: demo_gitlab_def)
  have b: "True \<longrightarrow> issues_list ?gl (private_token None) (ProjectId 42) Author ''alice''
             = Inr []"
    by (simp add: demo_gitlab_def)
  have agg: "aggregate True True [demo_issue 4, demo_issue 5, demo_issue 6] []
               = [demo_issue 4, demo_issue 5, demo_issue 6]"
    by (simp add: aggregate_def append_authored_def)
  have n4: "notes_list ?gl (private_token None) (ProjectId 42) (demo_issue 4) = Inr [demo_note]"
    by (simp add: demo_gitlab_def demo_issue_def)
  have n5: "notes_list ?gl (private_token None) (ProjectId 42) (demo_issue 5)
              = Inl (PyError ''Connection reset'')"
    by (simp add: demo_gitlab_def demo_issue_def)
  have n6: "notes_list ?gl (private_token None) (ProjectId 42) (demo_issue 6) = Inr [demo_note]"
    by (simp add: demo_gitlab_def demo_issue_def)
  have st: "strip '' A summary. '' = ''A summary.''"
    by (simp add: strip_def isspace_def)
  have s: "summarize_comment_with_llm demo_llm ?c ?cl ''groq'' None = ''A summary.''"
    by (simp add: summarize_comment_with_llm_def complete_chat_def demo_llm_def
        response_text_def st)
  from C3_thread_failure_stays_on_its_issue [OF parse_project_42 g a b,
      of demo_llm ?cl "Some ''groq''" None, unfolded agg]
  obtain out where
    o: "snd (fetch_issues_by_username ?gl demo_llm ''42'' ''alice'' None True True ?cl
               (Some ''groq'') None) = Inr out"
    and len: "length out = 3"
    and k0: "comments (out ! 0) = Some [Comment (?c\<lparr>llm_summary := Some ''A summary.''\<rparr>)]"
    and k1: "comments (out ! 1) =
               Some [ThreadError ''Failed to fetch or summarize comments: Connection reset'']"
    and k2: "comments (out ! 2) = Some [Comment (?c\<lparr>llm_summary := Some ''A summary.''\<rparr>)]"
    by (auto simp: n4 n5 n6 s demo_note_def demo_user_def)
  have "map comments out = [comments (out ! 0), comments (out ! 1), comments (out ! 2)]"
    by (rule map_of_three [OF len])
  with o k0 k1 k2 show ?thesis by simp
qed

section \<open>Both relations disabled\<close>

text \<open>
  C8 (as amended). With both relation flags false, \<open>fetch_issues_by_username\<close> does one
  of three things, decided by the locator alone. A locator that \<^verbatim>\<open>isdigit\<close> accepts
  and \<^verbatim>\<open>int\<close> rejects raises before any request. A locator the check refuses returns
  the empty list with no request. Any other locator returns the empty list after
  exactly one request, the project lookup: no issue listing and no thread retrieval.
  Through \<open>fetch_issues_logic\<close>, a request with both required fields, a locator that
  does not raise and both \<^verbatim>\<open>assignee_only\<close> and \<^verbatim>\<open>author_only\<close> set is answered with
  status 200, success, an empty issue list and count 0.
\<close>

theorem C8_both_relations_disabled:
  "fetch_issues_by_username gl w url u tok False False c pr m =
     (case parse_project url of
        Inl e \<Rightarrow> ([], Inl e)
      | Inr None \<Rightarrow> ([], Inr [])
      | Inr (Some p) \<Rightarrow> ([ProjectsGet p], Inr []))
   \<and> (truthy (f_project_url d) \<and> truthy (py_or (f_username d) (f_user d))
        \<and> f_assignee_only d \<and> f_author_only d
        \<and> (\<forall>e. parse_project (the (f_project_url d)) \<noteq> Inl e) \<longrightarrow>
      snd (fetch_issues_logic gl w ev d) =
        Inr (empty_response\<lparr>r_success := Some True, r_issues := Some [], r_count := Some 0,
               r_project_url := f_project_url d,
               r_username := py_or (f_username d) (f_user d)\<rparr>, 200))"
proof -
  have t: "\<And>url u tok c pr m. fetch_issues_by_username gl w url u tok False False c pr m =
     (case parse_project url of
        Inl e \<Rightarrow> ([], Inl e)
      | Inr None \<Rightarrow> ([], Inr [])
      | Inr (Some p) \<Rightarrow> ([ProjectsGet p], Inr []))"
    by (auto simp: fetch_issues_by_username_def fetch_body_def Let_def attach_comments_def
        split: prod.splits option.splits sum.splits exn.splits if_splits)
  have l: "truthy (f_project_url d) \<and> truthy (py_or (f_username d) (f_user d))
        \<and> f_assignee_only d \<and> f_author_only d
        \<and> (\<forall>e. parse_project (the (f_project_url d)) \<noteq> Inl e) \<longrightarrow>
      snd (fetch_issues_logic gl w ev d) =
        Inr (empty_response\<lparr>r_success := Some True, r_issues := Some [], r_count := Some 0,
               r_project_url := f_project_url d,
               r_username := py_or (f_username d) (f_user d)\<rparr>, 200)"
    by (auto simp: fetch_issues_logic_def Let_def t split: prod.splits sum.splits option.splits)
  from t l show ?thesis by blast
qed

theorem C8_both_relations_disabled_witness:
  "fetch_issues_logic (demo_gitlab None (Inr [demo_issue 1]) (Inr [demo_issue 2]) (\<lambda>i. Inr []))
       demo_llm demo_env (demo_request\<lparr>f_assignee_only := True, f_author_only := True\<rparr>)
   = ([ProjectsGet (ProjectId 42)],
      Inr (empty_response\<lparr>r_success := Some True, r_issues := Some [], r_count := Some 0,
             r_project_url := Some ''42'', r_username := Some ''alice''\<rparr>, 200))"
proof -
  let ?gl = "demo_gitlab None (Inr [demo_issue 1]) (Inr [demo_issue 2]) (\<lambda>i. Inr [])"
  let ?d = "demo_request\<lparr>f_assignee_only := True, f_author_only := True\<rparr>"
  have h: "truthy (f_project_url ?d) \<and> truthy (py_or (f_username ?d) (f_user ?d))
             \<and> f_assignee_only ?d \<and> f_author_only ?d
             \<and> (\<forall>e. parse_project (the (f_project_url ?d)) \<noteq> Inl e)"
    by (simp add: demo_request_def py_or_def parse_project_42)
  have c: "fst (fetch_issues_logic ?gl demo_llm demo_env ?d)
             = fst (fetch_issues_by_username ?gl demo_llm ''42'' ''alice'' None False False
                      None None None)"
    by (simp add: fetch_issues_logic_def demo_request_def demo_env_def py_or_def Let_def
        split: prod.splits sum.splits)
  from C8_both_relations_disabled [of ?gl demo_llm "''42''" "''alice''" None None None None
      ?d demo_env] h c
  show ?thesis
    by (simp add: parse_project_42 prod_eq_iff demo_request_def py_or_def)
qed

text \<open>
  The claim as stated fails: with both flags false and a well-formed locator the
  project lookup is still sent to the tracker.
\<close>

theorem C8_counterexample:
  "fst (fetch_issues_by_username
          (demo_gitlab None (Inr [demo_issue 1]) (Inr [demo_issue 2]) (\<lambda>i. Inr []))
          demo_llm ''42'' ''alice'' None False False None None None)
   = [ProjectsGet (ProjectId 42)]"
  by (simp add: fetch_issues_by_username_def fetch_body_def parse_project_42
      private_token_def demo_gitlab_def attach_comments_def)

text \<open>The locator made of the superscript two is accepted by \<^verbatim>\<open>isdigit\<close> and raises.\<close>

lemma superscript_locator_raises:
  "fetch_issues_by_username gl w [CHR 0xB2] u tok fa fau c pr m =
     ([], Inl (PyError (''invalid literal for int() with base 10: '' @ [CHR 0x27, CHR 0xB2, CHR 0x27])))"
  by (simp add: fetch_issues_by_username_def parse_project_def startswith_def isdigit_def
      is_unicode_digit_def py_int_def is_digit_char_def)

section \<open>The collection overview\<close>

lemma foldl_append_map:
  "foldl (\<lambda>acc x. acc @ f x) acc xs = acc @ concat (map f xs)"
  by (induction xs arbitrary: acc) auto

lemma str_nat_12: "str_nat 12 = ''12''"
  by code_simp

lemma str_nat_2: "str_nat 2 = ''2''"
  by code_simp

lemma str_int_upto_10:
  "str_int 1 = ''1''" "str_int 2 = ''2''" "str_int 3 = ''3''" "str_int 4 = ''4''"
  "str_int 5 = ''5''" "str_int 6 = ''6''" "str_int 7 = ''7''" "str_int 8 = ''8''"
  "str_int 9 = ''9''" "str_int 10 = ''10''"
  by code_simp+

text \<open>
  C5. The overview is the line with the total count, then one entry for each of the
  first ten issues in their order, then, when there are more than ten issues, the line
  counting the remainder. Every entry is the line with the identifier, the title and
  the state of its issue, followed by a description line exactly when the issue has a
  non-empty description, followed by an empty line. The description line shows the
  preview: the description itself when that has at most 100 characters, its first 100
  characters followed by the three-character ellipsis otherwise, so never more than
  103 characters.
\<close>

theorem C5_collection_overview_is_capped:
  "issues_overview issues =
     ''Total issues: '' @ str_nat (length issues) @ ''\<newline>\<newline>''
     @ concat (map overview_entry (take 10 issues))
     @ (if length issues > 10
        then ''... and '' @ str_nat (length issues - 10) @ '' more issues\<newline>'' else [])
   \<and> length (map overview_entry (take 10 issues)) = min 10 (length issues)
   \<and> (\<forall>i. overview_entry i =
         ''- Issue #'' @ obj_iid i @ '': '' @ obj_title i @ '' ('' @ obj_state i @ '')\<newline>''
         @ (if truthy (obj_description i)
            then ''  Description: '' @ desc_preview (the (obj_description i)) @ ''\<newline>''
            else [])
         @ ''\<newline>'')
   \<and> (\<forall>d. length (desc_preview d) \<le> 103
         \<and> (length d > 100 \<longrightarrow> desc_preview d = take 100 d @ ''...'')
         \<and> (length d \<le> 100 \<longrightarrow> desc_preview d = d))"
proof -
  have 1: "issues_overview issues =
     ''Total issues: '' @ str_nat (length issues) @ ''\<newline>\<newline>''
     @ concat (map overview_entry (take 10 issues))
     @ (if length issues > 10
        then ''... and '' @ str_nat (length issues - 10) @ '' more issues\<newline>'' else [])"
    by (simp add: issues_overview_def Let_def foldl_append_map)
  have 2: "length (map overview_entry (take 10 issues)) = min 10 (length issues)"
    by (simp add: min.commute)
  have 3: "\<forall>i. overview_entry i =
         ''- Issue #'' @ obj_iid i @ '': '' @ obj_title i @ '' ('' @ obj_state i @ '')\<newline>''
         @ (if truthy (obj_description i)
            then ''  Description: '' @ desc_preview (the (obj_description i)) @ ''\<newline>''
            else [])
         @ ''\<newline>''"
    by (simp add: overview_entry_def split: option.splits)
  have 4: "\<forall>d. length (desc_preview d) \<le> 103
         \<and> (length d > 100 \<longrightarrow> desc_preview d = take 100 d @ ''...'')
         \<and> (length d \<le> 100 \<longrightarrow> desc_preview d = d)"
    by (simp add: desc_preview_def)
  from 1 2 3 4 show ?thesis by blast
qed

theorem C5_collection_overview_is_capped_witness:
  "issues_overview demo_mocks =
     ''Total issues: 12\<newline>\<newline>''
     @ ''- Issue #1: Crash (opened)\<newline>  Description: '' @ replicate 100 (CHR ''x'')
       @ ''...\<newline>\<newline>''
     @ ''- Issue #2: Docs (closed)\<newline>\<newline>''
     @ ''- Issue #3: Crash (opened)\<newline>\<newline>''
     @ ''- Issue #4: Crash (closed)\<newline>  Description: Short\<newline>\<newline>''
     @ ''- Issue #5: Crash (opened)\<newline>  Description: Short\<newline>\<newline>''
     @ ''- Issue #6: Crash (closed)\<newline>  Description: Short\<newline>\<newline>''
     @ ''- Issue #7: Crash (opened)\<newline>  Description: Short\<newline>\<newline>''
     @ ''- Issue #8: Crash (closed)\<newline>  Description: Short\<newline>\<newline>''
     @ ''- Issue #9: Crash (opened)\<newline>  Description: Short\<newline>\<newline>''
     @ ''- Issue #10: Crash (closed)\<newline>  Description: Short\<newline>\<newline>''
     @ ''... and 2 more issues\<newline>''"
proof -
  note th = C5_collection_overview_is_capped [of demo_mocks]
  from th have ov: "issues_overview demo_mocks =
     ''Total issues: '' @ str_nat (length demo_mocks) @ ''\<newline>\<newline>''
     @ concat (map overview_entry (take 10 demo_mocks))
     @ (if length demo_mocks > 10
        then ''... and '' @ str_nat (length demo_mocks - 10) @ '' more issues\<newline>'' else [])"
    by blast
  from th have en: "\<And>i. overview_entry i =
         ''- Issue #'' @ obj_iid i @ '': '' @ obj_title i @ '' ('' @ obj_state i @ '')\<newline>''
         @ (if truthy (obj_description i)
            then ''  Description: '' @ desc_preview (the (obj_description i)) @ ''\<newline>''
            else [])
         @ ''\<newline>''"
    by blast
  from th have long: "\<And>d. length d > 100 \<Longrightarrow> desc_preview d = take 100 d @ ''...''"
    by blast
  from th have short: "\<And>d. length d \<le> 100 \<Longrightarrow> desc_preview d = d"
    by blast
  have p1: "desc_preview (replicate 101 (CHR ''x'')) = replicate 100 (CHR ''x'') @ ''...''"
    using long [of "replicate 101 (CHR ''x'')"] by simp
  have p2: "desc_preview ''Short'' = ''Short''"
    using short [of "''Short''"] by simp
  have len: "length demo_mocks = 12"
    by (simp add: demo_mocks_def)
  have tk: "take 10 demo_mocks = map (\<lambda>n. Mock (demo_mock n)) [1, 2, 3, 4, 5, 6, 7, 8, 9, 10]"
    by (simp add: demo_mocks_def)
  show ?thesis
    unfolding ov len tk
    by (simp add: en demo_mock_def p1 p2 str_int_upto_10 str_nat_12 str_nat_2)
qed

section \<open>Individual summaries behind the summarize boundary\<close>




section \<open>The query branch\<close>

lemma strip_query_system: "strip query_system = query_system"
  by (simp add: strip_def query_system_def isspace_def)

lemma strip_collection_system: "strip collection_system = collection_system"
  by (simp add: strip_def collection_system_def isspace_def)

lemma get_client_demo:
  "get_llm_client demo_env empty_state
     = ((Some (GroqClient ''gsk-1''), Some ''groq''),
        \<lparr>llm_client_global = Some (GroqClient ''gsk-1''), llm_provider_global = Some ''groq''\<rparr>)"
  by (simp add: get_llm_client_def demo_env_def empty_state_def setup_llm_client_def lower_def
      lower_char_def py_or_def)

text \<open>
  C7. The claim asks that a query of whitespace only follows the standard collection
  summary. The code tests \<^verbatim>\<open>if query:\<close>, which holds for every non-empty string, so
  a query of three spaces takes the query branch: the request is sent with the
  instruction of the query branch, the overview starts with the query prefix, and
  the answer echoes the query. The empty query does take the standard path.
\<close>

theorem C7_whitespace_query_takes_query_path:
  "summary_path_of (Some ''   '') = QueryDirected
   \<and> query_overview ''   '' [] = ''User Query:    \<newline>\<newline>Issues Summary:\<newline>''
   \<and> (\<exists>r st'. summarize_logic demo_env echo_llm empty_state
                   (demo_summarize_request\<lparr>s_query := Val ''   ''\<rparr>) = (Inr (r, 200), st')
          \<and> r_collection_summary r = Some query_system
          \<and> r_query r = Val ''   '')
   \<and> (\<exists>r st'. summarize_logic demo_env echo_llm empty_state
                   (demo_summarize_request\<lparr>s_query := Val []\<rparr>) = (Inr (r, 200), st')
          \<and> r_collection_summary r = Some collection_system)"
  by (simp add: summary_path_of_def query_overview_def summarize_logic_def
      demo_summarize_request_def Let_def
      get_client_demo switch_provider_def collection_summary_of_def complete_chat_def
      echo_llm_def response_text_def strip_query_system strip_collection_system
      summarize_issues_collection_with_llm_def)

section \<open>Fetching and summarizing in one call\<close>

lemma summarize_logic_no_issues_key:
  "summarize_logic ev w st data = (Inr (sd, status), st') \<Longrightarrow> r_issues sd = None"
  unfolding summarize_logic_def Let_def
  by (auto simp: error_response_def empty_response_def
      split: prod.splits sum.splits if_splits)

lemma summarize_logic_200_has_summary:
  "summarize_logic ev w st data = (Inr (sd, 200), st') \<Longrightarrow> \<exists>y. r_collection_summary sd = Some y"
  unfolding summarize_logic_def Let_def
  by (auto simp: error_response_def empty_response_def
      split: prod.splits sum.splits if_splits)

lemma update_response_keeps_issues:
  "r_issues sd = None \<Longrightarrow> r_issues (update_response fd sd) = r_issues fd"
  by (simp add: update_response_def upd_def)

lemma update_response_takes_summary:
  "r_collection_summary sd = Some y \<Longrightarrow> r_collection_summary (update_response fd sd) = Some y"
  by (simp add: update_response_def upd_def)

lemma fetch_issues_logic_no_summary_keys:
  "fetch_issues_logic gl w ev data = (calls, Inr (fd, fs)) \<Longrightarrow>
     r_collection_summary fd = None \<and> r_summary_error fd = None"
  unfolding fetch_issues_logic_def Let_def
  by (auto simp: error_response_def empty_response_def
      split: prod.splits sum.splits if_splits)

text \<open>
  C9 (as amended). An exception that leaves the fetch is answered with status 500 and
  its message; a fetch result whose status is not 200 is returned unchanged. Otherwise
  the answer has status 200 and carries the fetched issues unchanged, and: when no
  summary was requested or no issue was fetched, it is the fetch result; when
  \<open>summarize_logic\<close> answers with status 200, its keys are merged into the fetch result,
  among them the collection summary; when \<open>summarize_logic\<close> raises, the message is
  attached under \<^verbatim>\<open>summary_error\<close>; when \<open>summarize_logic\<close> answers with another
  status, the fetch result is returned as it is, with no summary and no error marker.
\<close>

theorem C9_fetch_and_summarize_keeps_issues:
  "(fetch_issues_logic gl w ev data = (calls, Inl e) \<longrightarrow>
      fetch_and_summarize gl w ev st data = ((calls, error_response (str_exn e), 500), st))
   \<and> (fetch_issues_logic gl w ev data = (calls, Inr (fd, fs))
        \<and> (fs \<noteq> 200 \<or> r_success fd \<noteq> Some True) \<longrightarrow>
      fetch_and_summarize gl w ev st data = ((calls, fd, fs), st))
   \<and> (fetch_issues_logic gl w ev data = (calls, Inr (fd, 200)) \<and> r_success fd = Some True
        \<and> r_issues fd = Some issues \<longrightarrow>
      (\<exists>out st'. fetch_and_summarize gl w ev st data = ((calls, out, 200), st')
         \<and> r_issues out = Some issues
         \<and> (\<not> f_summarize data \<or> issues = [] \<longrightarrow> out = fd \<and> st' = st)
         \<and> (f_summarize data \<and> issues \<noteq> [] \<longrightarrow>
              (case summarize_logic ev w st (summarize_data_of data issues) of
                 (Inr (sd, status), st'') \<Rightarrow>
                    st' = st''
                    \<and> (if status = 200
                        then out = update_response fd sd \<and> r_collection_summary out \<noteq> None
                        else out = fd \<and> r_collection_summary out = None
                             \<and> r_summary_error out = None)
               | (Inl x, st'') \<Rightarrow>
                    st' = st'' \<and> out = fd\<lparr>r_summary_error := Some (str_exn x)\<rparr>))))"
proof -
  have 1: "fetch_issues_logic gl w ev data = (calls, Inl e) \<longrightarrow>
      fetch_and_summarize gl w ev st data = ((calls, error_response (str_exn e), 500), st)"
    by (simp add: fetch_and_summarize_def)
  have 2: "fetch_issues_logic gl w ev data = (calls, Inr (fd, fs))
        \<and> (fs \<noteq> 200 \<or> r_success fd \<noteq> Some True) \<longrightarrow>
      fetch_and_summarize gl w ev st data = ((calls, fd, fs), st)"
    by (auto simp: fetch_and_summarize_def)
  have 3: "fetch_issues_logic gl w ev data = (calls, Inr (fd, 200)) \<and> r_success fd = Some True
        \<and> r_issues fd = Some issues \<longrightarrow>
      (\<exists>out st'. fetch_and_summarize gl w ev st data = ((calls, out, 200), st')
         \<and> r_issues out = Some issues
         \<and> (\<not> f_summarize data \<or> issues = [] \<longrightarrow> out = fd \<and> st' = st)
         \<and> (f_summarize data \<and> issues \<noteq> [] \<longrightarrow>
              (case summarize_logic ev w st (summarize_data_of data issues) of
                 (Inr (sd, status), st'') \<Rightarrow>
                    st' = st''
                    \<and> (if status = 200
                        then out = update_response fd sd \<and> r_collection_summary out \<noteq> None
                        else out = fd \<and> r_collection_summary out = None
                             \<and> r_summary_error out = None)
               | (Inl x, st'') \<Rightarrow>
                    st' = st'' \<and> out = fd\<lparr>r_summary_error := Some (str_exn x)\<rparr>)))"
    by (auto simp: fetch_and_summarize_def Let_def update_response_keeps_issues
        update_response_takes_summary
        dest: summarize_logic_no_issues_key summarize_logic_200_has_summary
          fetch_issues_logic_no_summary_keys
        split: prod.splits sum.splits if_splits option.splits)
  from 1 2 3 show ?thesis by blast
qed

lemma demo_fetch_logic:
  "fetch_issues_logic (demo_gitlab None (Inr [demo_issue 1]) (Inr []) (\<lambda>i. Inr [])) w ev
       (demo_request\<lparr>f_summarize := True\<rparr>)
   = ([ProjectsGet (ProjectId 42), IssuesList Assignee ''alice'', IssuesList Author ''alice'',
       NotesList 1],
      Inr (empty_response\<lparr>r_success := Some True,
             r_issues := Some [to_issue_data ((demo_issue 1)\<lparr>comments := Some []\<rparr>)],
             r_count := Some 1, r_project_url := Some ''42'', r_username := Some ''alice''\<rparr>,
           200))"
  by (simp add: fetch_issues_logic_def demo_request_def py_or_def Let_def
      fetch_issues_by_username_def parse_project_42 fetch_body_def demo_gitlab_def
      append_authored_def attach_comments_def thread_of_def demo_issue_def)

theorem C9_fetch_and_summarize_keeps_issues_witness:
  "\<exists>out st'. fetch_and_summarize (demo_gitlab None (Inr [demo_issue 1]) (Inr []) (\<lambda>i. Inr []))
        echo_llm demo_env empty_state (demo_request\<lparr>f_summarize := True\<rparr>)
      = (([ProjectsGet (ProjectId 42), IssuesList Assignee ''alice'',
           IssuesList Author ''alice'', NotesList 1], out, 200), st')
    \<and> r_issues out = Some [to_issue_data ((demo_issue 1)\<lparr>comments := Some []\<rparr>)]
    \<and> r_collection_summary out = Some collection_system"
proof -
  let ?gl = "demo_gitlab None (Inr [demo_issue 1]) (Inr []) (\<lambda>i. Inr [])"
  let ?d = "demo_request\<lparr>f_summarize := True\<rparr>"
  let ?issues = "[to_issue_data ((demo_issue 1)\<lparr>comments := Some []\<rparr>)]"
  let ?fd = "empty_response\<lparr>r_success := Some True, r_issues := Some ?issues,
               r_count := Some 1, r_project_url := Some ''42'', r_username := Some ''alice''\<rparr>"
  let ?calls = "[ProjectsGet (ProjectId 42), IssuesList Assignee ''alice'',
                 IssuesList Author ''alice'', NotesList 1]"
  have h: "fetch_issues_logic ?gl echo_llm demo_env ?d = (?calls, Inr (?fd, 200))
           \<and> r_success ?fd = Some True \<and> r_issues ?fd = Some ?issues"
    by (simp add: demo_fetch_logic)
  have s: "f_summarize ?d \<and> ?issues \<noteq> []"
    by (simp add: demo_request_def)
  have sl: "\<exists>sd st''. summarize_logic demo_env echo_llm empty_state (summarize_data_of ?d ?issues)
               = (Inr (sd, 200), st'') \<and> r_collection_summary sd = Some collection_system"
    by (simp add: summarize_logic_def summarize_data_of_def demo_request_def Let_def
        get_client_demo switch_provider_def collection_summary_of_def summary_path_of_def
        complete_chat_def echo_llm_def response_text_def strip_collection_system
        summarize_issues_collection_with_llm_def)
  then obtain sd st'' where
    sl': "summarize_logic demo_env echo_llm empty_state (summarize_data_of ?d ?issues)
            = (Inr (sd, 200), st'')"
    and cs: "r_collection_summary sd = Some collection_system"
    by blast
  let ?P = "\<lambda>out st'. fetch_and_summarize ?gl echo_llm demo_env empty_state ?d
                    = ((?calls, out, 200), st')
         \<and> r_issues out = Some ?issues
         \<and> (\<not> f_summarize ?d \<or> ?issues = [] \<longrightarrow> out = ?fd \<and> st' = empty_state)
         \<and> (f_summarize ?d \<and> ?issues \<noteq> [] \<longrightarrow>
              (case summarize_logic demo_env echo_llm empty_state
                      (summarize_data_of ?d ?issues) of
                 (Inr (sd, status), st'') \<Rightarrow>
                    st' = st''
                    \<and> (if status = 200
                        then out = update_response ?fd sd \<and> r_collection_summary out \<noteq> None
                        else out = ?fd \<and> r_collection_summary out = None
                             \<and> r_summary_error out = None)
               | (Inl x, st'') \<Rightarrow>
                    st' = st'' \<and> out = ?fd\<lparr>r_summary_error := Some (str_exn x)\<rparr>))"
  note th = C9_fetch_and_summarize_keeps_issues
         [where gl = ?gl and w = echo_llm and ev = demo_env and data = ?d and calls = ?calls
            and st = empty_state and fd = ?fd and issues = ?issues and fs = 200
            and e = "PyError []"]
  from th have imp: "fetch_issues_logic ?gl echo_llm demo_env ?d = (?calls, Inr (?fd, 200))
        \<and> r_success ?fd = Some True \<and> r_issues ?fd = Some ?issues \<longrightarrow>
      (\<exists>out st'. ?P out st')"
    by (elim conjE)
  from imp h have "\<exists>out st'. ?P out st'"
    by (rule mp)
  then obtain out where "\<exists>st'. ?P out st'" ..
  then obtain st' where p: "?P out st'" ..
  from p have f: "fetch_and_summarize ?gl echo_llm demo_env empty_state ?d
                    = ((?calls, out, 200), st')"
    by (rule conjunct1)
  from p have i: "r_issues out = Some ?issues"
    by (rule conjunct2 [THEN conjunct1])
  from p have "f_summarize ?d \<and> ?issues \<noteq> [] \<longrightarrow>
              (case summarize_logic demo_env echo_llm empty_state
                      (summarize_data_of ?d ?issues) of
                 (Inr (sd, status), st'') \<Rightarrow>
                    st' = st''
                    \<and> (if status = 200
                        then out = update_response ?fd sd \<and> r_collection_summary out \<noteq> None
                        else out = ?fd \<and> r_collection_summary out = None
                             \<and> r_summary_error out = None)
               | (Inl x, st'') \<Rightarrow>
                    st' = st'' \<and> out = ?fd\<lparr>r_summary_error := Some (str_exn x)\<rparr>)"
    by (rule conjunct2 [THEN conjunct2, THEN conjunct2])
  from this s have c: "case summarize_logic demo_env echo_llm empty_state
                      (summarize_data_of ?d ?issues) of
                 (Inr (sd, status), st'') \<Rightarrow>
                    st' = st''
                    \<and> (if status = 200
                        then out = update_response ?fd sd \<and> r_collection_summary out \<noteq> None
                        else out = ?fd \<and> r_collection_summary out = None
                             \<and> r_summary_error out = None)
               | (Inl x, st'') \<Rightarrow>
                    st' = st'' \<and> out = ?fd\<lparr>r_summary_error := Some (str_exn x)\<rparr>"
    by (rule mp)
  from c have "out = update_response ?fd sd"
    by (simp add: sl')
  then have "r_collection_summary out = Some collection_system"
    by (simp add: update_response_takes_summary cs)
  with f i show ?thesis by blast
qed

text \<open>
  The claim as stated fails: with no provider credential \<open>summarize_logic\<close> answers with
  status 400, and the answer of the combined operation is the fetch result with neither
  a summary nor an error marker.
\<close>

theorem C9_counterexample:
  "snd (snd (fst (fetch_and_summarize
        (demo_gitlab None (Inr [demo_issue 1]) (Inr []) (\<lambda>i. Inr []))
        demo_llm no_key_env empty_state (demo_request\<lparr>f_summarize := True\<rparr>)))) = 200
   \<and> fst (snd (fst (fetch_and_summarize
        (demo_gitlab None (Inr [demo_issue 1]) (Inr []) (\<lambda>i. Inr []))
        demo_llm no_key_env empty_state (demo_request\<lparr>f_summarize := True\<rparr>))))
     = empty_response\<lparr>r_success := Some True,
         r_issues := Some [to_issue_data ((demo_issue 1)\<lparr>comments := Some []\<rparr>)],
         r_count := Some 1, r_project_url := Some ''42'', r_username := Some ''alice''\<rparr>
   \<and> r_collection_summary (fst (snd (fst (fetch_and_summarize
        (demo_gitlab None (Inr [demo_issue 1]) (Inr []) (\<lambda>i. Inr []))
        demo_llm no_key_env empty_state (demo_request\<lparr>f_summarize := True\<rparr>))))) = None
   \<and> r_summary_error (fst (snd (fst (fetch_and_summarize
        (demo_gitlab None (Inr [demo_issue 1]) (Inr []) (\<lambda>i. Inr []))
        demo_llm no_key_env empty_state (demo_request\<lparr>f_summarize := True\<rparr>))))) = None"
proof -
  have r: "fetch_and_summarize (demo_gitlab None (Inr [demo_issue 1]) (Inr []) (\<lambda>i. Inr []))
        demo_llm no_key_env empty_state (demo_request\<lparr>f_summarize := True\<rparr>)
      = (([ProjectsGet (ProjectId 42), IssuesList Assignee ''alice'',
           IssuesList Author ''alice'', NotesList 1],
          empty_response\<lparr>r_success := Some True,
            r_issues := Some [to_issue_data ((demo_issue 1)\<lparr>comments := Some []\<rparr>)],
            r_count := Some 1, r_project_url := Some ''42'', r_username := Some ''alice''\<rparr>,
          200), empty_state)"
    unfolding fetch_and_summarize_def demo_fetch_logic
    by (simp add: Let_def demo_request_def summarize_logic_def summarize_data_of_def
        get_llm_client_def no_key_env_def demo_env_def empty_state_def)
  show ?thesis
    unfolding r by (simp add: empty_response_def)
qed

section \<open>Provider failures at the call sites\<close>





section \<open>Provider resolution\<close>

text \<open>
  C4. The claim asks that a request for a provider other than the cached one switches
  exactly when a credential for the requested provider exists, and otherwise keeps the
  cached client and its identity. The code reads the OpenAI credential for every
  requested provider other than \<^verbatim>\<open>groq\<close>. With both credentials set and the groq
  client in use, a request for the provider \<^verbatim>\<open>mistral\<close>, for which no credential
  exists, therefore calls \<open>setup_llm_client\<close>, which refuses the name and answers
  with no client: the cached client is dropped, the answer names \<^verbatim>\<open>mistral\<close> as the
  provider with status 200 and success, and no provider ran. A request that names no
  provider is served by groq.
\<close>

theorem C4_unknown_provider_drops_cached_client:
  "get_llm_client demo_env empty_state
     = ((Some (GroqClient ''gsk-1''), Some ''groq''),
        \<lparr>llm_client_global = Some (GroqClient ''gsk-1''), llm_provider_global = Some ''groq''\<rparr>)
   \<and> switch_provider demo_env (Some ''mistral'') (Some (GroqClient ''gsk-1'')) (Some ''groq'')
     = Inr (None, Some ''mistral'')
   \<and> fst (summarize_logic demo_env echo_llm empty_state
             (demo_summarize_request\<lparr>s_provider := Val ''mistral''\<rparr>))
     = Inr (empty_response\<lparr>r_success := Some True, r_provider := Val ''mistral'',
              r_model := Some ''llama-3.3-70b-versatile'', r_query := Val [],
              r_collection_summary := Some ''No issues to summarize or LLM not available''\<rparr>,
            200)
   \<and> fst (summarize_logic demo_env echo_llm empty_state demo_summarize_request)
     = Inr (empty_response\<lparr>r_success := Some True, r_provider := Val ''groq'',
              r_model := Some ''llama-3.3-70b-versatile'', r_query := Val [],
              r_collection_summary := Some collection_system\<rparr>,
            200)"
proof -
  have s: "switch_provider demo_env (Some ''mistral'') (Some (GroqClient ''gsk-1'')) (Some ''groq'')
             = Inr (None, Some ''mistral'')"
    by (simp add: switch_provider_def demo_env_def setup_llm_client_def lower_def lower_char_def)
  have k: "switch_provider demo_env (Some ''groq'') (Some (GroqClient ''gsk-1'')) (Some ''groq'')
             = Inr (Some (GroqClient ''gsk-1''), Some ''groq'')"
    by (simp add: switch_provider_def)
  have 3: "fst (summarize_logic demo_env echo_llm empty_state
             (demo_summarize_request\<lparr>s_provider := Val ''mistral''\<rparr>))
     = Inr (empty_response\<lparr>r_success := Some True, r_provider := Val ''mistral'',
              r_model := Some ''llama-3.3-70b-versatile'', r_query := Val [],
              r_collection_summary := Some ''No issues to summarize or LLM not available''\<rparr>,
            200)"
    by (simp add: summarize_logic_def demo_summarize_request_def Let_def get_client_demo s
        collection_summary_of_def summary_path_of_def resolve_model_def get_default_model_def
        summarize_issues_collection_with_llm_def)
  have 4: "fst (summarize_logic demo_env echo_llm empty_state demo_summarize_request)
     = Inr (empty_response\<lparr>r_success := Some True, r_provider := Val ''groq'',
              r_model := Some ''llama-3.3-70b-versatile'', r_query := Val [],
              r_collection_summary := Some collection_system\<rparr>,
            200)"
    by (simp add: summarize_logic_def demo_summarize_request_def Let_def get_client_demo k
        collection_summary_of_def summary_path_of_def resolve_model_def get_default_model_def
        summarize_issues_collection_with_llm_def complete_chat_def echo_llm_def
        response_text_def strip_collection_system)
  from get_client_demo s 3 4 show ?thesis by blast
qed

end
